theory Spec2Isabelle
  imports Main
begin

section \<open>The store\<close>

text \<open>
  The relational store is a record of tables, each a list of rows in insertion order.
  Timestamps are integers (milliseconds); one clock reading \<open>now\<close> is taken per request
  and the store's \<open>NOW()\<close> is read off the same clock.
\<close>

record user =
  user_id :: int
  username :: string
  email :: string
  password_hash :: string
  user_role :: string
  approval_status :: string
  failed_attempts :: "nat option"
  locked_until :: "int option"
  created_at :: int
  updated_at :: "int option"

record refresh_row =
  rt_user_id :: int
  refresh_token :: string
  issued_at :: int
  expires_at :: int
  device :: "string option"

datatype entity = Students | Volunteers | Donors | Board_members | Projects | Finance_reports

text \<open>
  A row of one of the six record tables: its id, its owner column (NULL is \<open>None\<close>, any
  other value is kept in the form JavaScript's \<open>String\<close> gives it) and the remaining
  columns as one opaque value.
\<close>

record rec_row =
  rid :: string
  owner :: "string option"
  columns :: string

text \<open>
  \<open>dependents\<close> lists the user ids that rows of other tables reference through a
  foreign key; deleting such a user makes the store raise error 23503.
\<close>

record db =
  users :: "user list"
  refresh_tokens :: "refresh_row list"
  revoked_tokens :: "string list"
  records :: "entity \<Rightarrow> rec_row list"
  dependents :: "int list"

section \<open>Requests and responses\<close>

text \<open>The principal that verifyToken attaches as \<open>req.user\<close>.\<close>

record principal =
  pr_user_id :: int
  pr_email :: string
  role :: "string option"

record request =
  authorization :: "string option"
  cookie_access_token :: "string option"
  cookie_refresh_token :: "string option"
  user_agent :: "string option"
  body_email :: string
  body_password :: string

record cookie =
  c_name :: string
  c_value :: string
  c_max_age :: "int option"
  c_expires :: "int option"

type_synonym pending_row = "int \<times> string \<times> string \<times> string \<times> string \<times> int"
type_synonym status_row = "int \<times> string \<times> string \<times> string"

datatype json =
    JError string
  | JMessage string
  | JPending "pending_row list"
  | JMessageUser string status_row
  | JRows "rec_row list"
  | JValidationErrors

record response =
  status :: nat
  body :: json
  set_cookie :: "cookie list"
  clear_cookie :: "string list"

definition reply :: "nat \<Rightarrow> json \<Rightarrow> response" where
  "reply s b = \<lparr>status = s, body = b, set_cookie = [], clear_cookie = []\<rparr>"

text \<open>JavaScript truthiness of a string that may be undefined.\<close>

definition falsy :: "string option \<Rightarrow> bool" where
  "falsy s = (case s of None \<Rightarrow> True | Some t \<Rightarrow> t = [])"

text \<open>Decimal rendering of numbers, as template strings and \<open>String\<close> produce it.\<close>

fun dec :: "nat \<Rightarrow> string" where
  "dec n = (if n < 10 then [''0123456789'' ! n] else dec (n div 10) @ [''0123456789'' ! (n mod 10)])"

definition String_int :: "int \<Rightarrow> string" where
  "String_int i = (if i < 0 then CHR ''-'' # dec (nat (- i)) else dec (nat i))"

definition String_opt :: "string option \<Rightarrow> string" where
  "String_opt v = (case v of None \<Rightarrow> ''null'' | Some s \<Rightarrow> s)"

section \<open>middleware/auth\<close>

subsection \<open>verifyToken\<close>

text \<open>
  \<open>extract_token\<close> is the first part of verifyToken: the bearer value of the
  Authorization header, else the access_token cookie.
  \<open>jwt.verify\<close> belongs to a library and is a parameter: \<open>None\<close> when it throws
  (bad signature, expired), otherwise the decoded principal.
\<close>

definition extract_token :: "request \<Rightarrow> string option" where
  "extract_token req =
    (let authHeader = (case authorization req of None \<Rightarrow> [] | Some h \<Rightarrow> h);
         token = (if take 7 authHeader = ''Bearer '' then Some (drop 7 authHeader) else None)
     in if falsy token \<and> \<not> falsy (cookie_access_token req)
        then cookie_access_token req else token)"

definition verifyToken ::
  "(string \<Rightarrow> principal option) \<Rightarrow> db \<Rightarrow> request \<Rightarrow> response + principal" where
  "verifyToken jwt_verify d req =
    (case extract_token req of
       None \<Rightarrow> Inl (reply 401 (JError ''Missing token''))
     | Some token \<Rightarrow>
         if token = [] then Inl (reply 401 (JError ''Missing token''))
         else if token \<in> set (revoked_tokens d)
           then Inl (reply 401 (JError ''Token revoked. Please log in again.''))
         else (case jwt_verify token of
                 None \<Rightarrow> Inl (reply 401 (JError ''Invalid or expired token''))
               | Some decoded \<Rightarrow> Inr decoded))"

subsection \<open>rbacAccess\<close>

text \<open>
  The role-by-verb table. \<open>rules[role]\<close> on a JavaScript object literal also finds the
  properties inherited from \<open>Object.prototype\<close>; none of those is a row of the table and
  none has a property named after an HTTP method.
\<close>

definition rules :: "(string \<times> (string \<times> bool) list) list" where
  "rules =
    [(''member'',      [(''GET'', True), (''POST'', False), (''PUT'', False), (''PATCH'', False), (''DELETE'', False)]),
     (''staff'',       [(''GET'', True), (''POST'', True),  (''PUT'', True),  (''PATCH'', True),  (''DELETE'', False)]),
     (''admin'',       [(''GET'', True), (''POST'', True),  (''PUT'', True),  (''PATCH'', True),  (''DELETE'', True)]),
     (''finance'',     [(''GET'', True), (''POST'', True),  (''PUT'', False), (''PATCH'', False), (''DELETE'', False)]),
     (''super_admin'', [(''GET'', True), (''POST'', True),  (''PUT'', True),  (''PATCH'', True),  (''DELETE'', True)])]"

definition object_prototype_keys :: "string list" where
  "object_prototype_keys =
    [''constructor'', ''__proto__'', ''hasOwnProperty'', ''isPrototypeOf'',
     ''propertyIsEnumerable'', ''toLocaleString'', ''toString'', ''valueOf'',
     ''__defineGetter__'', ''__defineSetter__'', ''__lookupGetter__'', ''__lookupSetter__'']"

definition quoted :: "string \<Rightarrow> string" where
  "quoted s = [CHR 0x27] @ s @ [CHR 0x27]"

text \<open>
  \<open>rbacAccess\<close> is declared without parameters, so whatever a caller passes
  (\<open>args\<close>) is dropped. The middleware it returns reads \<open>req.user?.role\<close> and
  \<open>req.method\<close> (which Node delivers in upper case). \<open>Inr ()\<close> stands for \<open>next()\<close>.
\<close>

definition rbacAccess :: "string list list \<Rightarrow> principal option \<Rightarrow> string \<Rightarrow> response + unit" where
  "rbacAccess args usr method =
    (case (case usr of None \<Rightarrow> None | Some p \<Rightarrow> role p) of
       None \<Rightarrow> Inl (reply 401 (JError ''Unauthorized: no role''))
     | Some r \<Rightarrow>
         if r = [] then Inl (reply 401 (JError ''Unauthorized: no role''))
         else (case map_of rules r of
                 None \<Rightarrow>
                   if r \<in> set object_prototype_keys
                   then Inl (reply 403 (JError (''Role '' @ quoted r @ '' not allowed to '' @ method)))
                   else Inl (reply 403 (JError (''Role '' @ quoted r @ '' not recognized'')))
               | Some roleRules \<Rightarrow>
                   (case map_of roleRules method of
                      Some True \<Rightarrow> Inr ()
                    | _ \<Rightarrow> Inl (reply 403 (JError (''Role '' @ quoted r @ '' not allowed to '' @ method))))))"

subsection \<open>requireOwnerOrAdmin\<close>

text \<open>JavaScript's \<open>s.split(c)\<close>: the parts between the separators; the empty string gives one empty part.\<close>

fun split_on :: "char \<Rightarrow> string \<Rightarrow> string list" where
  "split_on c [] = [[]]"
| "split_on c (x # xs) =
    (if x = c then [] # split_on c xs
     else (case split_on c xs of [] \<Rightarrow> [[x]] | p # ps \<Rightarrow> (x # p) # ps))"

text \<open>The inline table of the middleware: key, then table and owner column.\<close>

definition owner_map :: "(string \<times> entity \<times> string) list" where
  "owner_map =
    [(''students_frf_owner'',   Students,        ''student_frf_owner''),
     (''volunteers_frf_owner'', Volunteers,      ''volunteer_frf_owner''),
     (''donors_frf_owner'',     Donors,          ''donor_frf_owner''),
     (''board_frf_owner'',      Board_members,   ''board_frf_owner''),
     (''projects_frf_owner'',   Projects,        ''project_frf_owner''),
     (''finance_frf_owner'',    Finance_reports, ''finance_report_frf_owner'')]"

text \<open>
  \<open>baseUrl\<close> is the mount path of the router and \<open>recordId\<close> is \<open>req.params.id\<close>
  (empty when the route has none). A key inherited from \<open>Object.prototype\<close> gives a
  truthy \<open>cfg\<close> without table or column, on which the query throws.
\<close>

definition requireOwnerOrAdmin ::
  "db \<Rightarrow> principal option \<Rightarrow> string \<Rightarrow> string \<Rightarrow> response + unit" where
  "requireOwnerOrAdmin d usr baseUrl recordId =
    (case usr of
       None \<Rightarrow> Inl (reply 401 (JError ''Unauthorized''))
     | Some p \<Rightarrow>
         if role p = Some ''admin'' \<or> role p = Some ''staff'' \<or> role p = Some ''super_admin''
         then Inr ()
         else
           (let parts = split_on CHR ''/'' baseUrl;
                entity = last parts
            in case map_of owner_map entity of
                 None \<Rightarrow>
                   if entity \<in> set object_prototype_keys
                   then (if recordId = [] then Inl (reply 400 (JError ''Missing resource id''))
                         else Inl (reply 500 (JError ''Server error'')))
                   else Inl (reply 400 (JError ''requireOwnerOrAdmin: unknown entity''))
               | Some (table, ownercol) \<Rightarrow>
                   if recordId = [] then Inl (reply 400 (JError ''Missing resource id''))
                   else (case filter (\<lambda>r. rid r = recordId) (records d table) of
                           [] \<Rightarrow> Inl (reply 404 (JError ''Record not found''))
                         | row # _ \<Rightarrow>
                             if String_opt (owner row) = pr_email p
                                \<or> String_opt (owner row) = String_int (pr_user_id p)
                             then Inr ()
                             else Inl (reply 403 (JError ''Forbidden: not owner'')))))"

section \<open>routes/users\<close>

text \<open>
  What the handlers take from outside: the bcrypt comparison, the JWT library and the
  configured refresh lifetime are parameters. \<open>loginValidation\<close> is the
  express-validator chain in front of the login handler: \<open>None\<close> when it answers 400,
  otherwise the request with the normalised body.
  \<open>Number\<close> is JavaScript's conversion of a string to a number (a double); the handlers
  only ask whether the result is a given integer, so it gives \<open>Some i\<close> when
  \<open>Number(s)\<close> is the integer \<open>i\<close> and \<open>None\<close> when it is NaN, infinite or
  fractional. \<open>int4in\<close> is the store reading a text parameter that a query compares with
  the integer column user_id: \<open>None\<close> when the store raises, because the text is no
  integer literal or lies outside the range of the column type.
\<close>

record env =
  bcrypt_compare :: "string \<Rightarrow> string \<Rightarrow> bool"
  jwt_sign :: "principal \<Rightarrow> string"
  jwt_verify :: "string \<Rightarrow> principal option"
  REFRESH_DAYS :: int
  loginValidation :: "request \<Rightarrow> request option"
  Number :: "string \<Rightarrow> int option"
  int4in :: "string \<Rightarrow> int option"

definition createAccessToken :: "env \<Rightarrow> user \<Rightarrow> string" where
  "createAccessToken e u =
    jwt_sign e \<lparr>pr_user_id = user_id u, pr_email = email u, role = Some (user_role u)\<rparr>"

text \<open>\<open>uuid\<close> is the value \<open>uuidv4()\<close> returns in this request.\<close>

definition createRefreshToken :: "env \<Rightarrow> int \<Rightarrow> string \<Rightarrow> string \<times> int" where
  "createRefreshToken e now uuid = (uuid, now + REFRESH_DAYS e * 24 * 60 * 60 * 1000)"

definition cookieOptions :: "string \<Rightarrow> string \<Rightarrow> int option \<Rightarrow> cookie" where
  "cookieOptions n v maxAge =
    \<lparr>c_name = n, c_value = v,
     c_max_age = (case maxAge of None \<Rightarrow> None | Some m \<Rightarrow> if m = 0 then None else Some m),
     c_expires = None\<rparr>"

definition update_users :: "(user \<Rightarrow> bool) \<Rightarrow> (user \<Rightarrow> user) \<Rightarrow> db \<Rightarrow> db" where
  "update_users P f d = d\<lparr>users := map (\<lambda>u. if P u then f u else u) (users d)\<rparr>"

subsection \<open>POST /login\<close>

text \<open>
  The lockout check: \<open>user.locked_until && new Date(user.locked_until) > new Date()\<close>,
  and the minutes \<open>Math.ceil((locked_until - now) / 60000)\<close> of the message.
\<close>

definition lockout :: "user \<Rightarrow> int \<Rightarrow> int option" where
  "lockout usr now =
    (case locked_until usr of
       None \<Rightarrow> None
     | Some lu \<Rightarrow> if lu > now then Some (- ((now - lu) div 60000)) else None)"

text \<open>\<open>user.failed_attempts || 0\<close>: the counter, NULL counting as 0.\<close>

definition attempts_or_0 :: "user \<Rightarrow> nat" where
  "attempts_or_0 usr = (case failed_attempts usr of None \<Rightarrow> 0 | Some n \<Rightarrow> n)"

definition login :: "env \<Rightarrow> int \<Rightarrow> string \<Rightarrow> db \<Rightarrow> request \<Rightarrow> db \<times> response" where
  "login e now uuid d req =
    (case filter (\<lambda>u. email u = body_email req) (users d) of
       [] \<Rightarrow> (d, reply 401 (JError ''Invalid credentials''))
     | usr # _ \<Rightarrow>
         if approval_status usr \<noteq> ''APPROVED'' then
           (d, reply 403 (JError (if approval_status usr = ''REJECTED''
                                  then ''Account has been rejected by admin''
                                  else ''Account pending admin approval'')))
         else (case lockout usr now of
           Some mins \<Rightarrow>
             (d, reply 403 (JError (''Account locked. Try again in '' @ String_int mins
                                     @ '' minutes.'')))
         | None \<Rightarrow>
         if \<not> bcrypt_compare e (body_password req) (password_hash usr) then
           (let attempts = attempts_or_0 usr + 1
            in (if attempts \<ge> 5
                then update_users (\<lambda>u. user_id u = user_id usr)
                       (\<lambda>u. u\<lparr>failed_attempts := Some attempts,
                               locked_until := Some (now + 15 * 60 * 1000)\<rparr>) d
                else update_users (\<lambda>u. user_id u = user_id usr)
                       (\<lambda>u. u\<lparr>failed_attempts := Some attempts\<rparr>) d,
                reply 401 (JError ''Invalid credentials'')))
         else
           (let d1 = update_users (\<lambda>u. user_id u = user_id usr)
                       (\<lambda>u. u\<lparr>failed_attempts := Some 0, locked_until := None\<rparr>) d;
                accessToken = createAccessToken e usr;
                refresh = createRefreshToken e now uuid;
                d2 = d1\<lparr>refresh_tokens := refresh_tokens d1 @
                        [\<lparr>rt_user_id = user_id usr, refresh_token = fst refresh,
                          issued_at = now, expires_at = snd refresh,
                          device = (if falsy (user_agent req) then None else user_agent req)\<rparr>]\<rparr>
            in (d2, \<lparr>status = 200, body = JMessage ''Login successful'',
                     set_cookie =
                       [cookieOptions ''access_token'' accessToken (Some (15 * 60 * 1000)),
                        (cookieOptions ''refresh_token'' (fst refresh) None)
                          \<lparr>c_expires := Some (snd refresh)\<rparr>],
                     clear_cookie = []\<rparr>))))"

subsection \<open>POST /refresh\<close>

definition refresh :: "env \<Rightarrow> int \<Rightarrow> db \<Rightarrow> request \<Rightarrow> db \<times> response" where
  "refresh e now d req =
    (case cookie_refresh_token req of
       None \<Rightarrow> (d, reply 400 (JError ''Missing refresh token''))
     | Some token \<Rightarrow>
         if token = [] then (d, reply 400 (JError ''Missing refresh token''))
         else (case filter (\<lambda>r. refresh_token r = token \<and> expires_at r > now) (refresh_tokens d) of
                 [] \<Rightarrow> (d, reply 401 (JError ''Invalid refresh token''))
               | row # _ \<Rightarrow>
                   (case filter (\<lambda>u. user_id u = rt_user_id row) (users d) of
                      [] \<Rightarrow> (d, reply 401 (JError ''User not found''))
                    | usr # _ \<Rightarrow>
                        (d, \<lparr>status = 200, body = JMessage ''Access token refreshed'',
                             set_cookie = [cookieOptions ''access_token'' (createAccessToken e usr)
                                             (Some (15 * 60 * 1000))],
                             clear_cookie = []\<rparr>))))"

subsection \<open>POST /logout\<close>

text \<open>
  The insert is \<open>ON CONFLICT DO NOTHING\<close> on the token column: a token that is
  already in the table is not inserted again.
\<close>

definition revoke :: "string \<Rightarrow> db \<Rightarrow> db" where
  "revoke t d =
    (if t \<in> set (revoked_tokens d) then d else d\<lparr>revoked_tokens := revoked_tokens d @ [t]\<rparr>)"

definition logout :: "db \<Rightarrow> request \<Rightarrow> db \<times> response" where
  "logout d req =
    (let refreshToken = cookie_refresh_token req;
         accessToken =
           (if \<not> falsy (cookie_access_token req) then cookie_access_token req
            else (case authorization req of
                    None \<Rightarrow> None
                  | Some h \<Rightarrow> (case split_on CHR '' '' h of _ # t # _ \<Rightarrow> Some t | _ \<Rightarrow> None)));
         d1 = (if \<not> falsy refreshToken
               then d\<lparr>refresh_tokens :=
                        filter (\<lambda>r. Some (refresh_token r) \<noteq> refreshToken) (refresh_tokens d)\<rparr>
               else d);
         d2 = (case accessToken of
                 None \<Rightarrow> d1
               | Some t \<Rightarrow> if t = [] then d1 else revoke t d1)
     in (d2, \<lparr>status = 200, body = JMessage ''Logged out successfully'',
              set_cookie = [], clear_cookie = [''access_token'', ''refresh_token'']\<rparr>))"

subsection \<open>The admin routes\<close>

definition pending :: "db \<Rightarrow> db \<times> response" where
  "pending d =
    (d, reply 200 (JPending
          (map (\<lambda>u. (user_id u, username u, email u, user_role u, approval_status u, created_at u))
             (sort_key created_at (filter (\<lambda>u. approval_status u = ''PENDING'') (users d))))))"

text \<open>
  Approve and reject share their shape: the update with \<open>RETURNING\<close>, 404 when it
  returned no row, then the notification mail, whose failure is caught and logged and
  which the model leaves out.
\<close>

definition set_approval :: "string \<Rightarrow> string \<Rightarrow> int \<Rightarrow> db \<Rightarrow> int \<Rightarrow> db \<times> response" where
  "set_approval st msg now d i =
    (let d1 = update_users (\<lambda>u. user_id u = i)
                (\<lambda>u. u\<lparr>approval_status := st, updated_at := Some now\<rparr>) d
     in case filter (\<lambda>u. user_id u = i) (users d1) of
          [] \<Rightarrow> (d1, reply 404 (JError ''User not found''))
        | usr # _ \<Rightarrow>
            (d1, reply 200 (JMessageUser msg
                   (user_id usr, username usr, email usr, approval_status usr))))"

definition approve :: "int \<Rightarrow> db \<Rightarrow> int \<Rightarrow> db \<times> response" where
  "approve = set_approval ''APPROVED'' ''User approved''"

definition reject :: "int \<Rightarrow> db \<Rightarrow> int \<Rightarrow> db \<times> response" where
  "reject = set_approval ''REJECTED'' ''User rejected''"

subsection \<open>DELETE /:id\<close>

text \<open>
  The handler body after the middleware. \<open>targetId\<close> is \<open>req.params.id\<close>, the raw
  text of the path segment. The self check compares \<open>Number(targetId)\<close> with the
  requester's id. The \<open>SELECT\<close> hands the text to the store, which raises when it
  cannot read it as an integer of the column type; the catch block answers that with 500.
  The \<open>DELETE\<close> statement raises 23503 when the user is referenced; the catch block
  answers that with 400.
\<close>

definition delete_user :: "env \<Rightarrow> db \<Rightarrow> principal \<Rightarrow> string \<Rightarrow> db \<times> response" where
  "delete_user e d requester targetId =
    (if Number e targetId = Some (pr_user_id requester)
     then (d, reply 403 (JError ''You cannot delete your own account''))
     else (case int4in e targetId of
             None \<Rightarrow> (d, reply 500 (JError ''Server error''))
           | Some i \<Rightarrow>
               (case filter (\<lambda>u. user_id u = i) (users d) of
                  [] \<Rightarrow> (d, reply 404 (JError ''User not found''))
                | target # _ \<Rightarrow>
                    if user_role target = ''super_admin''
                    then (d, reply 403 (JError ''Super Admin cannot be deleted''))
                    else if role requester = Some ''admin'' \<and> user_role target \<noteq> ''member''
                    then (d, reply 403 (JError ''Admins can only delete members''))
                    else if i \<in> set (dependents d)
                    then (d, reply 400 (JError ''Cannot delete user: dependent records exist''))
                    else (d\<lparr>users := filter (\<lambda>u. user_id u \<noteq> i) (users d)\<rparr>,
                          reply 200 (JMessage ''User deleted successfully'')))))"

section \<open>Routing\<close>

text \<open>
  The routes the routers declare, with their path parameters (for approve, reject and
  the generic update the integer the segment denotes, for the delete route its raw text). The sub-resource routes are
  the session logs of students, the attendance of volunteers and projects, the donations
  of donors and the transactions of finance reports; the board router has none.
\<close>

datatype sub = Session_logs | Volunteer_attendance | Donations | Transactions | Project_attendance

datatype route =
    Register | Login | Refresh | Logout
  | Pending | Approve int | Reject int | PatchUser int | DeleteUser string | Me
  | ListAll entity | GetOne entity string
  | Create entity | PutOne entity string | PatchOne entity string | DeleteOne entity string
  | SubCreate sub string | SubPatch sub string

datatype middleware = VerifyToken | RbacAccess "string list list"

fun verb :: "route \<Rightarrow> string" where
  "verb Register = ''POST''"
| "verb Login = ''POST''"
| "verb Refresh = ''POST''"
| "verb Logout = ''POST''"
| "verb Pending = ''GET''"
| "verb (Approve i) = ''POST''"
| "verb (Reject i) = ''POST''"
| "verb (PatchUser i) = ''PATCH''"
| "verb (DeleteUser i) = ''DELETE''"
| "verb Me = ''GET''"
| "verb (ListAll t) = ''GET''"
| "verb (GetOne t i) = ''GET''"
| "verb (Create t) = ''POST''"
| "verb (PutOne t i) = ''PUT''"
| "verb (PatchOne t i) = ''PATCH''"
| "verb (DeleteOne t i) = ''DELETE''"
| "verb (SubCreate s i) = ''POST''"
| "verb (SubPatch s i) = ''PATCH''"

text \<open>The authentication and authorisation middleware each route is declared with.\<close>

fun guards :: "route \<Rightarrow> middleware list" where
  "guards Register = []"
| "guards Login = []"
| "guards Refresh = []"
| "guards Logout = []"
| "guards Pending = [VerifyToken, RbacAccess [[''admin'', ''super_admin'']]]"
| "guards (Approve i) = [VerifyToken, RbacAccess [[''admin'', ''super_admin'']]]"
| "guards (Reject i) = [VerifyToken, RbacAccess [[''admin'', ''super_admin'']]]"
| "guards (PatchUser i) = [VerifyToken, RbacAccess [[''admin'', ''super_admin'']]]"
| "guards (DeleteUser i) = [VerifyToken, RbacAccess [[''admin'', ''super_admin'']]]"
| "guards Me = [VerifyToken]"
| "guards (ListAll t) = []"
| "guards (GetOne t i) = []"
| "guards (Create t) = [VerifyToken, RbacAccess []]"
| "guards (PutOne t i) = (if t = Projects then [] else [VerifyToken, RbacAccess []])"
| "guards (PatchOne t i) = [VerifyToken, RbacAccess []]"
| "guards (DeleteOne t i) = [VerifyToken, RbacAccess []]"
| "guards (SubCreate s i) = [VerifyToken, RbacAccess []]"
| "guards (SubPatch s i) = [VerifyToken, RbacAccess []]"

text \<open>
  Running the middleware in order: \<open>Inl\<close> is the response of the first one that does
  not call \<open>next()\<close>, \<open>Inr\<close> is \<open>req.user\<close> as the handler finds it.
\<close>

fun run_guards ::
  "env \<Rightarrow> db \<Rightarrow> string \<Rightarrow> request \<Rightarrow> middleware list \<Rightarrow> principal option
     \<Rightarrow> response + principal option" where
  "run_guards e d m req [] usr = Inr usr"
| "run_guards e d m req (VerifyToken # gs) usr =
    (case verifyToken (jwt_verify e) d req of
       Inl r \<Rightarrow> Inl r
     | Inr p \<Rightarrow> run_guards e d m req gs (Some p))"
| "run_guards e d m req (RbacAccess args # gs) usr =
    (case rbacAccess args usr m of
       Inl r \<Rightarrow> Inl r
     | Inr _ \<Rightarrow> run_guards e d m req gs usr)"

text \<open>
  The outcome of a request: an answer together with the store it leaves, or \<open>Passed\<close>
  when control reaches validation and record-handling code outside the authentication
  core (registration, profile and generic updates, the record mutations and the detail
  views), with \<open>req.user\<close> as that code finds it.
  The list routes answer with the rows of their table.
\<close>

datatype outcome = Answered db response | Passed "principal option"

definition answered :: "db \<times> response \<Rightarrow> outcome" where
  "answered x = Answered (fst x) (snd x)"

fun handler :: "env \<Rightarrow> int \<Rightarrow> string \<Rightarrow> db \<Rightarrow> request \<Rightarrow> principal option \<Rightarrow> route \<Rightarrow> outcome" where
  "handler e now uuid d req usr Login =
    (case loginValidation e req of
       None \<Rightarrow> Answered d (reply 400 JValidationErrors)
     | Some req' \<Rightarrow> answered (login e now uuid d req'))"
| "handler e now uuid d req usr Refresh = answered (refresh e now d req)"
| "handler e now uuid d req usr Logout = answered (logout d req)"
| "handler e now uuid d req usr Pending = answered (pending d)"
| "handler e now uuid d req usr (Approve i) = answered (approve now d i)"
| "handler e now uuid d req usr (Reject i) = answered (reject now d i)"
| "handler e now uuid d req usr (DeleteUser i) =
    (case usr of
       None \<Rightarrow> Answered d (reply 500 (JError ''Server error''))
     | Some p \<Rightarrow> answered (delete_user e d p i))"
| "handler e now uuid d req usr (ListAll t) = Answered d (reply 200 (JRows (records d t)))"
| "handler e now uuid d req usr r = Passed usr"

definition serve :: "env \<Rightarrow> int \<Rightarrow> string \<Rightarrow> db \<Rightarrow> route \<Rightarrow> request \<Rightarrow> outcome" where
  "serve e now uuid d r req =
    (case run_guards e d (verb r) req (guards r) None of
       Inl resp \<Rightarrow> Answered d resp
     | Inr usr \<Rightarrow> handler e now uuid d req usr r)"

text \<open>The paths under which server.js mounts the routers.\<close>

definition mounts :: "string list" where
  "mounts =
    [''/api/v1/users'', ''/api/v1/students'', ''/api/v1/volunteers'', ''/api/v1/donors'',
     ''/api/v1/board'', ''/api/v1/projects'', ''/api/v1/finance'', ''/api/v1/ui-config'']"

section \<open>Sequences of login attempts\<close>

text \<open>Login attempts one after the other, each with its clock reading and its uuid.\<close>

definition run_logins :: "env \<Rightarrow> db \<Rightarrow> (int \<times> string \<times> request) list \<Rightarrow> db" where
  "run_logins e d xs = foldl (\<lambda>d' (t, uuid, req). fst (login e t uuid d' req)) d xs"

section \<open>A sample deployment\<close>

definition mk_user :: "int \<Rightarrow> string \<Rightarrow> string \<Rightarrow> string \<Rightarrow> int \<Rightarrow> user" where
  "mk_user i n r st c =
    \<lparr>user_id = i, username = n, email = n @ ''@ngo.org'', password_hash = ''bcrypt:'' @ n,
     user_role = r, approval_status = st, failed_attempts = None, locked_until = None,
     created_at = c, updated_at = None\<rparr>"

definition mk_principal :: "int \<Rightarrow> string \<Rightarrow> string \<Rightarrow> principal" where
  "mk_principal i n r = \<lparr>pr_user_id = i, pr_email = n @ ''@ngo.org'', role = Some r\<rparr>"

text \<open>
  The sample's \<open>Number\<close> and \<open>int4in\<close> read decimal integer literals with an optional
  sign, on which they agree with Node (below \<open>2 ^ 53\<close>) and with the store;
  \<open>Number\<close> of the empty string is 0, and \<open>int4in\<close> raises outside the range of a
  32-bit integer. Other spellings of a number (blanks, fractions, exponents, other bases)
  are beyond the sample, which takes them for text that is no number.
\<close>

definition digit_of :: "char \<Rightarrow> nat option" where
  "digit_of =
    map_of [(CHR ''0'', 0), (CHR ''1'', 1), (CHR ''2'', 2), (CHR ''3'', 3), (CHR ''4'', 4),
            (CHR ''5'', 5), (CHR ''6'', 6), (CHR ''7'', 7), (CHR ''8'', 8), (CHR ''9'', 9)]"

fun digits_value :: "string \<Rightarrow> nat \<Rightarrow> nat option" where
  "digits_value [] acc = Some acc"
| "digits_value (c # cs) acc =
    (case digit_of c of None \<Rightarrow> None | Some v \<Rightarrow> digits_value cs (10 * acc + v))"

definition decimal_int :: "string \<Rightarrow> int option" where
  "decimal_int s =
    (case s of
       [] \<Rightarrow> None
     | c # cs \<Rightarrow>
         if c = CHR ''-'' then (if cs = [] then None else map_option (\<lambda>n. - int n) (digits_value cs 0))
         else if c = CHR ''+'' then (if cs = [] then None else map_option int (digits_value cs 0))
         else map_option int (digits_value s 0))"

definition sample_Number :: "string \<Rightarrow> int option" where
  "sample_Number s = (if s = [] then Some 0 else decimal_int s)"

definition sample_int4in :: "string \<Rightarrow> int option" where
  "sample_int4in s =
    (case decimal_int s of
       None \<Rightarrow> None
     | Some i \<Rightarrow> if - 2147483648 \<le> i \<and> i \<le> 2147483647 then Some i else None)"

definition sample_env :: env where
  "sample_env =
    \<lparr>bcrypt_compare = (\<lambda>pw h. h = ''bcrypt:'' @ pw),
     jwt_sign = (\<lambda>p. ''jwt.'' @ String_int (pr_user_id p)),
     jwt_verify = map_of
       [(''jwt.1'', mk_principal 1 ''root'' ''super_admin''),
        (''jwt.2'', mk_principal 2 ''dana'' ''admin''),
        (''jwt.3'', mk_principal 3 ''sam'' ''staff''),
        (''jwt.4'', mk_principal 4 ''mia'' ''member''),
        (''jwt.9'', mk_principal 4 ''mia'' ''member'')],
     REFRESH_DAYS = 30,
     loginValidation = Some,
     Number = sample_Number,
     int4in = sample_int4in\<rparr>"

definition sample_records :: "entity \<Rightarrow> rec_row list" where
  "sample_records t =
    (case t of
       Students \<Rightarrow> [\<lparr>rid = ''S1'', owner = Some ''mia@ngo.org'', columns = ''Asha''\<rparr>]
     | Volunteers \<Rightarrow> [\<lparr>rid = ''V1'', owner = Some ''3'', columns = ''Ravi''\<rparr>]
     | Board_members \<Rightarrow> [\<lparr>rid = ''B1'', owner = None, columns = ''Lena''\<rparr>]
     | _ \<Rightarrow> [])"

definition sample_db :: db where
  "sample_db =
    \<lparr>users =
       [mk_user 1 ''root'' ''super_admin'' ''APPROVED'' 10,
        mk_user 2 ''dana'' ''admin'' ''APPROVED'' 20,
        mk_user 3 ''sam'' ''staff'' ''APPROVED'' 30,
        mk_user 4 ''mia'' ''member'' ''APPROVED'' 40,
        mk_user 5 ''pat'' ''member'' ''PENDING'' 50,
        mk_user 6 ''rex'' ''member'' ''REJECTED'' 60,
        mk_user 7 ''kim'' ''member'' ''APPROVED'' 70],
     refresh_tokens =
       [\<lparr>rt_user_id = 4, refresh_token = ''r-old'', issued_at = 0, expires_at = 100, device = None\<rparr>,
        \<lparr>rt_user_id = 4, refresh_token = ''r-mia'', issued_at = 500, expires_at = 900000000, device = None\<rparr>],
     revoked_tokens = [''jwt.9''],
     records = sample_records,
     dependents = [7]\<rparr>"

definition sample_request :: request where
  "sample_request =
    \<lparr>authorization = None, cookie_access_token = None, cookie_refresh_token = None,
     user_agent = None, body_email = [], body_password = []\<rparr>"

definition bearer :: "string \<Rightarrow> request" where
  "bearer t = sample_request\<lparr>authorization := Some (''Bearer '' @ t)\<rparr>"

definition credentials :: "string \<Rightarrow> string \<Rightarrow> request" where
  "credentials n pw = sample_request\<lparr>body_email := n @ ''@ngo.org'', body_password := pw\<rparr>"

text \<open>Five attempts on mia's account with wrong passwords.\<close>

definition five_wrong :: "(int \<times> string \<times> request) list" where
  "five_wrong =
    [(1000, ''u1'', credentials ''mia'' ''guess1''),
     (2000, ''u2'', credentials ''mia'' ''guess2''),
     (3000, ''u3'', credentials ''mia'' ''guess3''),
     (4000, ''u4'', credentials ''mia'' ''guess4''),
     (5000, ''u5'', credentials ''mia'' ''guess5'')]"

lemmas sample_defs = sample_db_def sample_env_def sample_request_def sample_records_def
  mk_user_def mk_principal_def bearer_def credentials_def

lemmas sample_readers = sample_Number_def sample_int4in_def decimal_int_def digit_of_def

section \<open>Role-based access\<close>

text \<open>
  C10: the middleware produced by rbacAccess decides from the principal's role and the
  request's method alone. Whatever argument list \<open>L\<close> it is built with, it is the
  middleware of \<open>rbacAccess()\<close>; the principal's id and email do not matter; and a role
  that is no row of the table is always denied (401 for the empty role, else 403).
\<close>

theorem rbacAccess_arguments_ignored:
  "rbacAccess L usr m = rbacAccess [] usr m
   \<and> rbacAccess L (Some p) m
       = rbacAccess [] (Some \<lparr>pr_user_id = 0, pr_email = [], role = role p\<rparr>) m
   \<and> (role p = Some r \<and> r \<notin> set (map fst rules) \<longrightarrow>
        (\<exists>resp. rbacAccess L (Some p) m = Inl resp \<and> (status resp = 401 \<or> status resp = 403)))"
proof (intro conjI impI)
  show "rbacAccess L usr m = rbacAccess [] usr m"
    by (simp add: rbacAccess_def)
  show "rbacAccess L (Some p) m
        = rbacAccess [] (Some \<lparr>pr_user_id = 0, pr_email = [], role = role p\<rparr>) m"
    by (simp add: rbacAccess_def)
  assume a: "role p = Some r \<and> r \<notin> set (map fst rules)"
  then have "map_of rules r = None"
    by (simp add: map_of_eq_None_iff)
  with a show "\<exists>resp. rbacAccess L (Some p) m = Inl resp \<and> (status resp = 401 \<or> status resp = 403)"
    by (simp add: rbacAccess_def reply_def)
qed

theorem rbacAccess_arguments_ignored_witness:
  "role (mk_principal 9 ''gus'' ''guest'') = Some ''guest'' \<and> ''guest'' \<notin> set (map fst rules)
   \<and> (\<exists>resp. rbacAccess [[''admin'', ''super_admin'']] (Some (mk_principal 9 ''gus'' ''guest'')) ''GET''
               = Inl resp \<and> (status resp = 401 \<or> status resp = 403))"
proof -
  have h: "role (mk_principal 9 ''gus'' ''guest'') = Some ''guest'' \<and> ''guest'' \<notin> set (map fst rules)"
    by (simp add: rules_def mk_principal_def)
  from rbacAccess_arguments_ignored
         [of "[[''admin'', ''super_admin'']]" None "''GET''" "mk_principal 9 ''gus'' ''guest''" "''guest''"] h
  show ?thesis by blast
qed

lemma rbacAccess_GET_table_roles:
  assumes "role p = Some r" "r \<in> set (map fst rules)"
  shows "rbacAccess L (Some p) ''GET'' = Inr ()"
  using assms by (auto simp: rbacAccess_def rules_def)

lemma rbacAccess_POST_table_roles:
  assumes "role p = Some r" "r \<in> {''staff'', ''finance'', ''admin'', ''super_admin''}"
  shows "rbacAccess L (Some p) ''POST'' = Inr ()"
  using assms by (auto simp: rbacAccess_def rules_def)

lemma rbacAccess_DELETE_other_roles:
  assumes "role p = Some r" "r \<noteq> []" "r \<noteq> ''admin''" "r \<noteq> ''super_admin''"
  shows "\<exists>resp. rbacAccess L (Some p) ''DELETE'' = Inl resp \<and> status resp = 403"
  using assms by (auto simp: rbacAccess_def rules_def reply_def split: option.splits)

lemma serve_Pending_table_roles:
  assumes "extract_token req = Some t" "t \<noteq> []" "t \<notin> set (revoked_tokens d)"
    and "jwt_verify e t = Some p" "role p = Some r" "r \<in> set (map fst rules)"
  shows "serve e now uuid d Pending req = answered (pending d)"
  using assms rbacAccess_GET_table_roles[OF assms(5,6)]
  by (simp add: serve_def verifyToken_def)

lemma serve_Approve_Reject_table_roles:
  assumes "extract_token req = Some t" "t \<noteq> []" "t \<notin> set (revoked_tokens d)"
    and "jwt_verify e t = Some p" "role p = Some r"
    and "r \<in> {''staff'', ''finance'', ''admin'', ''super_admin''}"
  shows "serve e now uuid d (Approve i) req = answered (approve now d i)"
    and "serve e now uuid d (Reject i) req = answered (reject now d i)"
  using assms rbacAccess_POST_table_roles[OF assms(5,6)]
  by (simp_all add: serve_def verifyToken_def)

text \<open>
  C1: GET /pending, POST /:id/approve and POST /:id/reject are declared with
  \<open>rbacAccess(['admin', 'super_admin'])\<close>, but the argument is dropped and the table
  decides: with a valid token a member reads the pending list, and a staff account
  approves and rejects a pending account. Evaluated on the sample deployment.
\<close>

theorem admin_routes_open_to_other_roles:
  "jwt_verify sample_env ''jwt.4'' = Some (mk_principal 4 ''mia'' ''member'')
   \<and> serve sample_env 1000 ''u1'' sample_db Pending (bearer ''jwt.4'')
       = Answered sample_db
           (reply 200 (JPending [(5, ''pat'', ''pat@ngo.org'', ''member'', ''PENDING'', 50)]))
   \<and> jwt_verify sample_env ''jwt.3'' = Some (mk_principal 3 ''sam'' ''staff'')
   \<and> serve sample_env 1000 ''u1'' sample_db (Approve 5) (bearer ''jwt.3'')
       = Answered
           (update_users (\<lambda>u. user_id u = 5)
              (\<lambda>u. u\<lparr>approval_status := ''APPROVED'', updated_at := Some 1000\<rparr>) sample_db)
           (reply 200 (JMessageUser ''User approved'' (5, ''pat'', ''pat@ngo.org'', ''APPROVED'')))
   \<and> serve sample_env 1000 ''u1'' sample_db (Reject 5) (bearer ''jwt.3'')
       = Answered
           (update_users (\<lambda>u. user_id u = 5)
              (\<lambda>u. u\<lparr>approval_status := ''REJECTED'', updated_at := Some 1000\<rparr>) sample_db)
           (reply 200 (JMessageUser ''User rejected'' (5, ''pat'', ''pat@ngo.org'', ''REJECTED'')))"
proof (intro conjI)
  show "jwt_verify sample_env ''jwt.4'' = Some (mk_principal 4 ''mia'' ''member'')"
    by (simp add: sample_defs)
  show "jwt_verify sample_env ''jwt.3'' = Some (mk_principal 3 ''sam'' ''staff'')"
    by (simp add: sample_defs)
  show "serve sample_env 1000 ''u1'' sample_db Pending (bearer ''jwt.4'')
       = Answered sample_db
           (reply 200 (JPending [(5, ''pat'', ''pat@ngo.org'', ''member'', ''PENDING'', 50)]))"
    by (simp add: serve_def verifyToken_def extract_token_def falsy_def rbacAccess_def rules_def
          answered_def pending_def sample_defs)
  show "serve sample_env 1000 ''u1'' sample_db (Approve 5) (bearer ''jwt.3'')
       = Answered
           (update_users (\<lambda>u. user_id u = 5)
              (\<lambda>u. u\<lparr>approval_status := ''APPROVED'', updated_at := Some 1000\<rparr>) sample_db)
           (reply 200 (JMessageUser ''User approved'' (5, ''pat'', ''pat@ngo.org'', ''APPROVED'')))"
    by (simp add: serve_def verifyToken_def extract_token_def falsy_def rbacAccess_def rules_def
          answered_def approve_def set_approval_def update_users_def sample_defs)
  show "serve sample_env 1000 ''u1'' sample_db (Reject 5) (bearer ''jwt.3'')
       = Answered
           (update_users (\<lambda>u. user_id u = 5)
              (\<lambda>u. u\<lparr>approval_status := ''REJECTED'', updated_at := Some 1000\<rparr>) sample_db)
           (reply 200 (JMessageUser ''User rejected'' (5, ''pat'', ''pat@ngo.org'', ''REJECTED'')))"
    by (simp add: serve_def verifyToken_def extract_token_def falsy_def rbacAccess_def rules_def
          answered_def reject_def set_approval_def update_users_def sample_defs)
qed

section \<open>Login: approval gate, lockout, success\<close>

text \<open>
  The login, refresh and logout routes carry no authentication middleware: a login
  request that passes loginValidation goes to the handler with the normalised body, and
  the statements below are about the handler.
\<close>

lemma serve_Login:
  assumes "loginValidation e req0 = Some req"
  shows "serve e now uuid d Login req0 = answered (login e now uuid d req)"
  using assms by (simp add: serve_def)

lemma serve_Refresh: "serve e now uuid d Refresh req = answered (refresh e now d req)"
  by (simp add: serve_def)

lemma serve_Logout: "serve e now uuid d Logout req = answered (logout d req)"
  by (simp add: serve_def)

text \<open>
  C6: for an account whose approval_status is not APPROVED, login answers 403 and leaves
  the store as it is, whatever the password and whatever the password comparison would
  say; the message for REJECTED differs from the one for PENDING (and any other status).
\<close>

theorem login_refused_unless_approved:
  assumes "filter (\<lambda>u. email u = body_email req) (users d) = usr # rest"
    and "approval_status usr \<noteq> ''APPROVED''"
  shows "login e now uuid d req =
           (d, reply 403 (JError (if approval_status usr = ''REJECTED''
                                  then ''Account has been rejected by admin''
                                  else ''Account pending admin approval'')))
         \<and> ''Account has been rejected by admin'' \<noteq> ''Account pending admin approval''"
  using assms by (simp add: login_def)

theorem login_refused_unless_approved_witness:
  "filter (\<lambda>u. email u = body_email (credentials ''rex'' ''rex'')) (users sample_db)
     = [mk_user 6 ''rex'' ''member'' ''REJECTED'' 60]
   \<and> approval_status (mk_user 6 ''rex'' ''member'' ''REJECTED'' 60) \<noteq> ''APPROVED''
   \<and> bcrypt_compare sample_env (body_password (credentials ''rex'' ''rex''))
        (password_hash (mk_user 6 ''rex'' ''member'' ''REJECTED'' 60))
   \<and> login sample_env 1000 ''u1'' sample_db (credentials ''rex'' ''rex'')
       = (sample_db, reply 403 (JError ''Account has been rejected by admin''))"
proof -
  have f: "filter (\<lambda>u. email u = body_email (credentials ''rex'' ''rex'')) (users sample_db)
     = mk_user 6 ''rex'' ''member'' ''REJECTED'' 60 # []"
    by (simp add: sample_defs)
  have a: "approval_status (mk_user 6 ''rex'' ''member'' ''REJECTED'' 60) \<noteq> ''APPROVED''"
    by (simp add: mk_user_def)
  have b: "bcrypt_compare sample_env (body_password (credentials ''rex'' ''rex''))
        (password_hash (mk_user 6 ''rex'' ''member'' ''REJECTED'' 60))"
    by (simp add: sample_defs)
  have s: "approval_status (mk_user 6 ''rex'' ''member'' ''REJECTED'' 60) = ''REJECTED''"
    by (simp add: mk_user_def)
  from login_refused_unless_approved[OF f a, of sample_env 1000 "''u1''"] f a b s
  show ?thesis by simp
qed

subsection \<open>Failed attempts\<close>

lemma filter_update_users:
  assumes "\<And>u. email (f u) = email u"
  shows "filter (\<lambda>u. email u = a) (users (update_users P f d))
         = map (\<lambda>u. if P u then f u else u) (filter (\<lambda>u. email u = a) (users d))"
  using assms by (simp add: update_users_def filter_map comp_def if_distrib[of email] cong: if_cong)

lemma run_logins_snoc:
  "run_logins e d (xs @ [(t, uuid, req)]) = fst (login e t uuid (run_logins e d xs) req)"
  by (simp add: run_logins_def)

lemma login_failure_step:
  assumes found: "filter (\<lambda>u. email u = body_email req) (users d) = usr # rest"
    and ok: "approval_status usr = ''APPROVED''"
    and free: "lockout usr t = None"
    and wrong: "\<not> bcrypt_compare e (body_password req) (password_hash usr)"
  shows "\<exists>usr' rest'.
           filter (\<lambda>u. email u = body_email req) (users (fst (login e t uuid d req))) = usr' # rest'
           \<and> approval_status usr' = ''APPROVED''
           \<and> password_hash usr' = password_hash usr
           \<and> failed_attempts usr' = Some (attempts_or_0 usr + 1)
           \<and> locked_until usr' = (if attempts_or_0 usr + 1 \<ge> 5 then Some (t + 15 * 60 * 1000) else locked_until usr)"
proof (cases "attempts_or_0 usr + 1 \<ge> 5")
  case True
  then have "fst (login e t uuid d req)
        = update_users (\<lambda>u. user_id u = user_id usr)
            (\<lambda>u. u\<lparr>failed_attempts := Some (attempts_or_0 usr + 1), locked_until := Some (t + 15 * 60 * 1000)\<rparr>) d"
    using assms by (simp add: login_def attempts_or_0_def)
  then show ?thesis using found ok True
    by (simp add: filter_update_users)
next
  case False
  then have "fst (login e t uuid d req)
        = update_users (\<lambda>u. user_id u = user_id usr)
            (\<lambda>u. u\<lparr>failed_attempts := Some (attempts_or_0 usr + 1)\<rparr>) d"
    using assms by (simp add: login_def attempts_or_0_def)
  then show ?thesis using found ok False
    by (simp add: filter_update_users)
qed

lemma failures_below_threshold:
  assumes found: "filter (\<lambda>u. email u = a) (users d) = usr # rest"
    and ok: "approval_status usr = ''APPROVED''"
    and nolock: "locked_until usr = None"
  shows "(\<forall>(t, uuid, r) \<in> set xs. body_email r = a
              \<and> \<not> bcrypt_compare e (body_password r) (password_hash usr)) \<Longrightarrow>
         attempts_or_0 usr + length xs < 5 \<Longrightarrow>
         \<exists>usr' rest'.
           filter (\<lambda>u. email u = a) (users (run_logins e d xs)) = usr' # rest'
           \<and> approval_status usr' = ''APPROVED''
           \<and> password_hash usr' = password_hash usr
           \<and> attempts_or_0 usr' = attempts_or_0 usr + length xs
           \<and> locked_until usr' = None"
proof (induction xs rule: rev_induct)
  case Nil
  show ?case using found ok nolock by (simp add: run_logins_def)
next
  case (snoc x xs)
  obtain t uuid r where x: "x = (t, uuid, r)" by (cases x) auto
  from snoc.prems x have r: "body_email r = a"
    and w: "\<not> bcrypt_compare e (body_password r) (password_hash usr)" by auto
  from snoc obtain usr' rest' where
    f: "filter (\<lambda>u. email u = a) (users (run_logins e d xs)) = usr' # rest'"
    and a: "approval_status usr' = ''APPROVED''"
    and h: "password_hash usr' = password_hash usr"
    and c: "attempts_or_0 usr' = attempts_or_0 usr + length xs"
    and l: "locked_until usr' = None"
    by auto
  have free: "lockout usr' t = None" using l by (simp add: lockout_def)
  from f r have f': "filter (\<lambda>u. email u = body_email r) (users (run_logins e d xs)) = usr' # rest'"
    by simp
  from w h have w': "\<not> bcrypt_compare e (body_password r) (password_hash usr')" by simp
  from login_failure_step[OF f' a free w', of uuid] snoc.prems(2) c l h r x
  show ?case
    by (auto simp: run_logins_snoc attempts_or_0_def)
qed

lemma ceil_minutes:
  fixes now lu :: int
  assumes "lu - 900000 \<le> now" "now < lu"
  shows "1 \<le> - ((now - lu) div 60000) \<and> - ((now - lu) div 60000) \<le> 15"
  using assms by linarith

text \<open>
  C3: an approved account with fresh counters takes five login attempts with a wrong
  password, the fifth at time \<open>fst (last xs)\<close>. A further attempt within the next 15
  minutes, with any password (the right one included), is answered 403 with a lockout
  message naming between 1 and 15 minutes, and changes nothing in the store: the lock is
  looked at before the password.
\<close>

theorem lockout_after_five_failures:
  assumes found: "filter (\<lambda>u. email u = a) (users d) = usr # rest"
    and ok: "approval_status usr = ''APPROVED''"
    and zero: "failed_attempts usr = None \<or> failed_attempts usr = Some 0"
    and nolock: "locked_until usr = None"
    and five: "length xs = 5"
    and wrong: "\<forall>(t, uuid, r) \<in> set xs. body_email r = a
                  \<and> \<not> bcrypt_compare e (body_password r) (password_hash usr)"
    and after: "fst (last xs) \<le> now"
    and within: "now < fst (last xs) + 15 * 60 * 1000"
    and same: "body_email req = a"
  shows "\<exists>mins. 1 \<le> mins \<and> mins \<le> 15
           \<and> login e now uuid (run_logins e d xs) req
             = (run_logins e d xs,
                reply 403 (JError (''Account locked. Try again in '' @ String_int mins @ '' minutes.'')))"
proof -
  from five obtain ys x where xs: "xs = ys @ [x]" and ys: "length ys = 4"
    by (cases xs rule: rev_cases) auto
  obtain t5 u5 r5 where x: "x = (t5, u5, r5)" by (cases x) auto
  have c0: "attempts_or_0 usr = 0" using zero by (auto simp: attempts_or_0_def)
  from wrong xs have wys: "\<forall>(t, uuid, r) \<in> set ys. body_email r = a
                  \<and> \<not> bcrypt_compare e (body_password r) (password_hash usr)" by auto
  from wrong xs x have r5: "body_email r5 = a"
    and w5: "\<not> bcrypt_compare e (body_password r5) (password_hash usr)" by auto
  from failures_below_threshold[OF found ok nolock wys] c0 ys
  obtain usr4 rest4 where
    f4: "filter (\<lambda>u. email u = a) (users (run_logins e d ys)) = usr4 # rest4"
    and a4: "approval_status usr4 = ''APPROVED''"
    and h4: "password_hash usr4 = password_hash usr"
    and c4: "attempts_or_0 usr4 = 4"
    and l4: "locked_until usr4 = None"
    by auto
  have free: "lockout usr4 t5 = None" using l4 by (simp add: lockout_def)
  from f4 r5 have f4': "filter (\<lambda>u. email u = body_email r5) (users (run_logins e d ys)) = usr4 # rest4"
    by simp
  from w5 h4 have w5': "\<not> bcrypt_compare e (body_password r5) (password_hash usr4)" by simp
  from login_failure_step[OF f4' a4 free w5', of u5] c4 r5 xs x
  obtain usr5 rest5 where
    f5: "filter (\<lambda>u. email u = a) (users (run_logins e d xs)) = usr5 # rest5"
    and a5: "approval_status usr5 = ''APPROVED''"
    and l5: "locked_until usr5 = Some (t5 + 15 * 60 * 1000)"
    by (auto simp: run_logins_snoc)
  from xs x after within have w: "(t5 + 15 * 60 * 1000) - 900000 \<le> now" "now < t5 + 15 * 60 * 1000"
    by simp_all
  let ?mins = "- ((now - (t5 + 15 * 60 * 1000)) div 60000)"
  from w have lk: "lockout usr5 now = Some ?mins"
    using l5 by (simp add: lockout_def)
  from ceil_minutes[OF w] have b: "1 \<le> ?mins \<and> ?mins \<le> 15" .
  from f5 same have f5': "filter (\<lambda>u. email u = body_email req) (users (run_logins e d xs)) = usr5 # rest5"
    by simp
  have "login e now uuid (run_logins e d xs) req
             = (run_logins e d xs,
                reply 403 (JError (''Account locked. Try again in '' @ String_int ?mins @ '' minutes.'')))"
    using f5' a5 lk by (simp add: login_def)
  with b show ?thesis by blast
qed

theorem lockout_after_five_failures_witness:
  "bcrypt_compare sample_env (body_password (credentials ''mia'' ''mia''))
      (password_hash (mk_user 4 ''mia'' ''member'' ''APPROVED'' 40))
   \<and> (\<exists>mins. 1 \<le> mins \<and> mins \<le> 15
         \<and> login sample_env 600000 ''u6'' (run_logins sample_env sample_db five_wrong)
              (credentials ''mia'' ''mia'')
           = (run_logins sample_env sample_db five_wrong,
              reply 403 (JError (''Account locked. Try again in '' @ String_int mins @ '' minutes.''))))"
proof -
  have found: "filter (\<lambda>u. email u = ''mia@ngo.org'') (users sample_db)
                 = mk_user 4 ''mia'' ''member'' ''APPROVED'' 40 # []"
    by (simp add: sample_defs)
  have ok: "approval_status (mk_user 4 ''mia'' ''member'' ''APPROVED'' 40) = ''APPROVED''"
    by (simp add: mk_user_def)
  have zero: "failed_attempts (mk_user 4 ''mia'' ''member'' ''APPROVED'' 40) = None
              \<or> failed_attempts (mk_user 4 ''mia'' ''member'' ''APPROVED'' 40) = Some 0"
    by (simp add: mk_user_def)
  have nolock: "locked_until (mk_user 4 ''mia'' ''member'' ''APPROVED'' 40) = None"
    by (simp add: mk_user_def)
  have five: "length five_wrong = 5"
    by (simp add: five_wrong_def)
  have wrong: "\<forall>(t, uuid, r) \<in> set five_wrong. body_email r = ''mia@ngo.org''
                 \<and> \<not> bcrypt_compare sample_env (body_password r)
                       (password_hash (mk_user 4 ''mia'' ''member'' ''APPROVED'' 40))"
    by (simp add: five_wrong_def sample_defs)
  have after: "fst (last five_wrong) \<le> 600000"
    by (simp add: five_wrong_def)
  have within: "600000 < fst (last five_wrong) + 15 * 60 * 1000"
    by (simp add: five_wrong_def)
  have same: "body_email (credentials ''mia'' ''mia'') = ''mia@ngo.org''"
    by (simp add: sample_defs)
  have right: "bcrypt_compare sample_env (body_password (credentials ''mia'' ''mia''))
      (password_hash (mk_user 4 ''mia'' ''member'' ''APPROVED'' 40))"
    by (simp add: sample_defs)
  from lockout_after_five_failures[OF found ok zero nolock five wrong after within same, of "''u6''"] right
  show ?thesis by blast
qed

subsection \<open>Successful login\<close>

lemma login_success:
  assumes found: "filter (\<lambda>u. email u = body_email req) (users d) = usr # rest"
    and ok: "approval_status usr = ''APPROVED''"
    and free: "lockout usr now = None"
    and match: "bcrypt_compare e (body_password req) (password_hash usr)"
  shows "login e now uuid d req =
             (d\<lparr>users := map (\<lambda>u. if user_id u = user_id usr
                 then u\<lparr>failed_attempts := Some 0, locked_until := None\<rparr> else u) (users d), refresh_tokens := refresh_tokens d @ [\<lparr>rt_user_id = user_id usr, refresh_token = uuid, issued_at = now,
               expires_at = now + REFRESH_DAYS e * 24 * 60 * 60 * 1000,
               device = (if falsy (user_agent req) then None else user_agent req)\<rparr>]\<rparr>, \<lparr>status = 200, body = JMessage ''Login successful'',
                   set_cookie =
                     [cookieOptions ''access_token'' (createAccessToken e usr) (Some (15 * 60 * 1000)),
                      (cookieOptions ''refresh_token'' uuid None)
                        \<lparr>c_expires := Some (now + REFRESH_DAYS e * 24 * 60 * 60 * 1000)\<rparr>],
                   clear_cookie = []\<rparr>)"
    using assms by (simp add: login_def update_users_def createRefreshToken_def Let_def)

lemma filter_email_map:
  assumes "\<And>u. email (f u) = email u"
  shows "filter (\<lambda>u. email u = a) (map (\<lambda>u. if P u then f u else u) xs)
         = map (\<lambda>u. if P u then f u else u) (filter (\<lambda>u. email u = a) xs)"
  using assms by (simp add: filter_map comp_def if_distrib[of email] cong: if_cong)

text \<open>
  C7: a login of an approved, unlocked account with the matching password answers 200
  with the access-token and refresh-token cookies, sets failed_attempts to 0 and
  locked_until to NULL on the account, and appends exactly one refresh-session row for
  the account.
\<close>

theorem login_success_effects:
  assumes found: "filter (\<lambda>u. email u = body_email req) (users d) = usr # rest"
    and ok: "approval_status usr = ''APPROVED''"
    and free: "lockout usr now = None"
    and match: "bcrypt_compare e (body_password req) (password_hash usr)"
  shows "snd (login e now uuid d req) =
             \<lparr>status = 200, body = JMessage ''Login successful'',
              set_cookie =
                [cookieOptions ''access_token'' (createAccessToken e usr) (Some (15 * 60 * 1000)),
                 (cookieOptions ''refresh_token'' uuid None)
                   \<lparr>c_expires := Some (now + REFRESH_DAYS e * 24 * 60 * 60 * 1000)\<rparr>],
              clear_cookie = []\<rparr>
         \<and> users (fst (login e now uuid d req))
             = map (\<lambda>u. if user_id u = user_id usr
                         then u\<lparr>failed_attempts := Some 0, locked_until := None\<rparr> else u) (users d)
         \<and> hd (filter (\<lambda>u. email u = body_email req) (users (fst (login e now uuid d req))))
             = usr\<lparr>failed_attempts := Some 0, locked_until := None\<rparr>
         \<and> (\<exists>row. refresh_tokens (fst (login e now uuid d req)) = refresh_tokens d @ [row]
                \<and> rt_user_id row = user_id usr \<and> refresh_token row = uuid
                \<and> expires_at row = now + REFRESH_DAYS e * 24 * 60 * 60 * 1000)
         \<and> revoked_tokens (fst (login e now uuid d req)) = revoked_tokens d"
proof -
  note l = login_success[OF assms, of uuid]
  have 1: "snd (login e now uuid d req) =
             \<lparr>status = 200, body = JMessage ''Login successful'',
              set_cookie =
                [cookieOptions ''access_token'' (createAccessToken e usr) (Some (15 * 60 * 1000)),
                 (cookieOptions ''refresh_token'' uuid None)
                   \<lparr>c_expires := Some (now + REFRESH_DAYS e * 24 * 60 * 60 * 1000)\<rparr>],
              clear_cookie = []\<rparr>"
    by (simp add: l)
  have 2: "users (fst (login e now uuid d req))
             = map (\<lambda>u. if user_id u = user_id usr
                         then u\<lparr>failed_attempts := Some 0, locked_until := None\<rparr> else u) (users d)"
    by (simp add: l)
  have 3: "hd (filter (\<lambda>u. email u = body_email req) (users (fst (login e now uuid d req))))
             = usr\<lparr>failed_attempts := Some 0, locked_until := None\<rparr>"
    unfolding 2 by (subst filter_email_map) (simp_all add: found)
  have 4: "\<exists>row. refresh_tokens (fst (login e now uuid d req)) = refresh_tokens d @ [row]
                \<and> rt_user_id row = user_id usr \<and> refresh_token row = uuid
                \<and> expires_at row = now + REFRESH_DAYS e * 24 * 60 * 60 * 1000"
    by (simp add: l)
  have 5: "revoked_tokens (fst (login e now uuid d req)) = revoked_tokens d"
    by (simp add: l)
  from 1 2 3 4 5 show ?thesis by blast
qed

theorem login_success_effects_witness:
  "filter (\<lambda>u. email u = body_email (credentials ''mia'' ''mia'')) (users sample_db)
     = [mk_user 4 ''mia'' ''member'' ''APPROVED'' 40]
   \<and> status (snd (login sample_env 1000 ''u1'' sample_db (credentials ''mia'' ''mia''))) = 200
   \<and> map c_name (set_cookie (snd (login sample_env 1000 ''u1'' sample_db (credentials ''mia'' ''mia''))))
       = [''access_token'', ''refresh_token'']
   \<and> (\<exists>row. refresh_tokens (fst (login sample_env 1000 ''u1'' sample_db (credentials ''mia'' ''mia'')))
               = refresh_tokens sample_db @ [row]
            \<and> rt_user_id row = 4 \<and> refresh_token row = ''u1'')"
proof -
  have f: "filter (\<lambda>u. email u = body_email (credentials ''mia'' ''mia'')) (users sample_db)
     = mk_user 4 ''mia'' ''member'' ''APPROVED'' 40 # []"
    by (simp add: sample_defs)
  have a: "approval_status (mk_user 4 ''mia'' ''member'' ''APPROVED'' 40) = ''APPROVED''"
    by (simp add: mk_user_def)
  have l: "lockout (mk_user 4 ''mia'' ''member'' ''APPROVED'' 40) 1000 = None"
    by (simp add: lockout_def mk_user_def)
  have b: "bcrypt_compare sample_env (body_password (credentials ''mia'' ''mia''))
        (password_hash (mk_user 4 ''mia'' ''member'' ''APPROVED'' 40))"
    by (simp add: sample_defs)
  have i: "user_id (mk_user 4 ''mia'' ''member'' ''APPROVED'' 40) = 4"
    by (simp add: mk_user_def)
  from login_success_effects[OF f a l b, of "''u1''"] f i
  show ?thesis by (auto simp: cookieOptions_def)
qed

section \<open>Refresh\<close>

text \<open>
  C9: POST /refresh never writes to the store. It answers 400 without a refresh cookie,
  401 when no unexpired session carries the token, and, when such a session and its user
  exist, 200 with a new access-token cookie.
\<close>

theorem refresh_without_rotation:
  "fst (refresh e now d req) = d
   \<and> (falsy (cookie_refresh_token req) \<longrightarrow>
        snd (refresh e now d req) = reply 400 (JError ''Missing refresh token''))
   \<and> (cookie_refresh_token req = Some t \<and> t \<noteq> []
        \<and> (\<forall>r \<in> set (refresh_tokens d). refresh_token r = t \<longrightarrow> expires_at r \<le> now) \<longrightarrow>
        snd (refresh e now d req) = reply 401 (JError ''Invalid refresh token''))
   \<and> (cookie_refresh_token req = Some t \<and> t \<noteq> []
        \<and> filter (\<lambda>r. refresh_token r = t \<and> expires_at r > now) (refresh_tokens d) = row # rows
        \<and> filter (\<lambda>u. user_id u = rt_user_id row) (users d) = usr # rest \<longrightarrow>
        snd (refresh e now d req) =
          \<lparr>status = 200, body = JMessage ''Access token refreshed'',
           set_cookie = [cookieOptions ''access_token'' (createAccessToken e usr) (Some (15 * 60 * 1000))],
           clear_cookie = []\<rparr>)"
proof (intro conjI impI)
  show "fst (refresh e now d req) = d"
    by (simp add: refresh_def split: option.splits list.splits)
  show "snd (refresh e now d req) = reply 400 (JError ''Missing refresh token'')"
    if "falsy (cookie_refresh_token req)"
    using that by (auto simp: refresh_def falsy_def split: option.splits)
  show "snd (refresh e now d req) = reply 401 (JError ''Invalid refresh token'')"
    if h: "cookie_refresh_token req = Some t \<and> t \<noteq> []
        \<and> (\<forall>r \<in> set (refresh_tokens d). refresh_token r = t \<longrightarrow> expires_at r \<le> now)"
  proof -
    have "filter (\<lambda>r. refresh_token r = t \<and> expires_at r > now) (refresh_tokens d) = []"
      using h by (auto simp: filter_empty_conv)
    with h show ?thesis by (simp add: refresh_def)
  qed
  show "snd (refresh e now d req) =
          \<lparr>status = 200, body = JMessage ''Access token refreshed'',
           set_cookie = [cookieOptions ''access_token'' (createAccessToken e usr) (Some (15 * 60 * 1000))],
           clear_cookie = []\<rparr>"
    if "cookie_refresh_token req = Some t \<and> t \<noteq> []
        \<and> filter (\<lambda>r. refresh_token r = t \<and> expires_at r > now) (refresh_tokens d) = row # rows
        \<and> filter (\<lambda>u. user_id u = rt_user_id row) (users d) = usr # rest"
    using that by (simp add: refresh_def)
qed

theorem refresh_without_rotation_witness:
  "refresh sample_env 1000 sample_db sample_request
     = (sample_db, reply 400 (JError ''Missing refresh token''))
   \<and> refresh sample_env 1000 sample_db (sample_request\<lparr>cookie_refresh_token := Some ''r-old''\<rparr>)
     = (sample_db, reply 401 (JError ''Invalid refresh token''))
   \<and> refresh sample_env 1000 sample_db (sample_request\<lparr>cookie_refresh_token := Some ''r-mia''\<rparr>)
     = (sample_db,
        \<lparr>status = 200, body = JMessage ''Access token refreshed'',
         set_cookie = [\<lparr>c_name = ''access_token'', c_value = ''jwt.4'',
                        c_max_age = Some 900000, c_expires = None\<rparr>],
         clear_cookie = []\<rparr>)"
proof -
  let ?old = "sample_request\<lparr>cookie_refresh_token := Some ''r-old''\<rparr>"
  let ?mia = "sample_request\<lparr>cookie_refresh_token := Some ''r-mia''\<rparr>"
  have h1: "falsy (cookie_refresh_token sample_request)"
    by (simp add: falsy_def sample_request_def)
  have h2: "cookie_refresh_token ?old = Some ''r-old'' \<and> ''r-old'' \<noteq> []
        \<and> (\<forall>r \<in> set (refresh_tokens sample_db). refresh_token r = ''r-old'' \<longrightarrow> expires_at r \<le> 1000)"
    by (simp add: sample_defs)
  have h3: "cookie_refresh_token ?mia = Some ''r-mia'' \<and> ''r-mia'' \<noteq> []
        \<and> filter (\<lambda>r. refresh_token r = ''r-mia'' \<and> expires_at r > 1000) (refresh_tokens sample_db)
            = \<lparr>rt_user_id = 4, refresh_token = ''r-mia'', issued_at = 500,
                expires_at = 900000000, device = None\<rparr> # []
        \<and> filter (\<lambda>u. user_id u = rt_user_id \<lparr>rt_user_id = 4, refresh_token = ''r-mia'', issued_at = 500,
                expires_at = 900000000, device = None\<rparr>) (users sample_db)
            = mk_user 4 ''mia'' ''member'' ''APPROVED'' 40 # []"
    by (simp add: sample_defs)
  have tok: "createAccessToken sample_env (mk_user 4 ''mia'' ''member'' ''APPROVED'' 40) = ''jwt.4''"
    by (simp add: createAccessToken_def sample_defs String_int_def)
  have a: "refresh sample_env 1000 sample_db sample_request
     = (sample_db, reply 400 (JError ''Missing refresh token''))"
    using refresh_without_rotation[of sample_env 1000 sample_db sample_request] h1
    by (simp add: prod_eq_iff)
  have b: "refresh sample_env 1000 sample_db ?old
     = (sample_db, reply 401 (JError ''Invalid refresh token''))"
    using refresh_without_rotation[of sample_env 1000 sample_db ?old "''r-old''"] h2
    by (simp add: prod_eq_iff)
  have c: "refresh sample_env 1000 sample_db ?mia
     = (sample_db,
        \<lparr>status = 200, body = JMessage ''Access token refreshed'',
         set_cookie = [\<lparr>c_name = ''access_token'', c_value = ''jwt.4'',
                        c_max_age = Some 900000, c_expires = None\<rparr>],
         clear_cookie = []\<rparr>)"
    using refresh_without_rotation[of sample_env 1000 sample_db ?mia "''r-mia''"
            "\<lparr>rt_user_id = 4, refresh_token = ''r-mia'', issued_at = 500,
                expires_at = 900000000, device = None\<rparr>" "[]"
            "mk_user 4 ''mia'' ''member'' ''APPROVED'' 40" "[]"] h3 tok
    by (simp add: prod_eq_iff cookieOptions_def)
  from a b c show ?thesis by blast
qed

section \<open>Revocation\<close>












section \<open>Deleting users\<close>

lemma serve_DeleteUser:
  assumes "extract_token req = Some t" "t \<noteq> []" "t \<notin> set (revoked_tokens d)"
    and "jwt_verify e t = Some p"
    and "role p = Some ''admin'' \<or> role p = Some ''super_admin''"
  shows "serve e now uuid d (DeleteUser targetId) req = answered (delete_user e d p targetId)"
  using assms
  by (auto simp: serve_def verifyToken_def rbacAccess_def rules_def)

lemma serve_DeleteUser_other_roles:
  assumes "extract_token req = Some t" "t \<noteq> []" "t \<notin> set (revoked_tokens d)"
    and "jwt_verify e t = Some p"
    and "role p = Some r" "r \<noteq> []" "r \<noteq> ''admin''" "r \<noteq> ''super_admin''"
  shows "\<exists>resp. serve e now uuid d (DeleteUser targetId) req = Answered d resp \<and> status resp = 403"
proof -
  from rbacAccess_DELETE_other_roles[OF assms(5-8)]
  obtain resp where "rbacAccess [[''admin'', ''super_admin'']] (Some p) ''DELETE'' = Inl resp"
    and "status resp = 403" by blast
  with assms(1-4) show ?thesis
    by (simp add: serve_def verifyToken_def)
qed

text \<open>
  C8, as amended: the DELETE /:id handler answers 403 when \<open>Number\<close> of the id is the
  requester's own id; otherwise 500 when the store cannot read the id as an integer of
  the column type; otherwise 404 when no account has the id; 403 when the target is a
  super_admin (whoever asks); 403 when an admin targets a non-member; 400 when dependent
  records block the deletion; and otherwise it removes the account and answers 200. On
  the route, a verified admin or super_admin reaches the handler and every other
  non-empty role is answered 403 by rbacAccess.
\<close>

theorem delete_user_rules:
  "(Number e targetId = Some (pr_user_id p) \<longrightarrow>
      delete_user e d p targetId
        = (d, reply 403 (JError ''You cannot delete your own account'')))
   \<and> (Number e targetId \<noteq> Some (pr_user_id p) \<and> int4in e targetId = None \<longrightarrow>
      delete_user e d p targetId = (d, reply 500 (JError ''Server error'')))
   \<and> (Number e targetId \<noteq> Some (pr_user_id p) \<and> int4in e targetId = Some i
        \<and> (\<forall>u \<in> set (users d). user_id u \<noteq> i) \<longrightarrow>
      delete_user e d p targetId = (d, reply 404 (JError ''User not found'')))
   \<and> (int4in e targetId = Some i
        \<and> filter (\<lambda>u. user_id u = i) (users d) = target # rest
        \<and> user_role target = ''super_admin'' \<longrightarrow>
      fst (delete_user e d p targetId) = d \<and> status (snd (delete_user e d p targetId)) = 403)
   \<and> (int4in e targetId = Some i
        \<and> filter (\<lambda>u. user_id u = i) (users d) = target # rest
        \<and> role p = Some ''admin'' \<and> user_role target \<noteq> ''member'' \<longrightarrow>
      fst (delete_user e d p targetId) = d \<and> status (snd (delete_user e d p targetId)) = 403)
   \<and> (Number e targetId \<noteq> Some (pr_user_id p) \<and> int4in e targetId = Some i
        \<and> filter (\<lambda>u. user_id u = i) (users d) = target # rest
        \<and> user_role target \<noteq> ''super_admin''
        \<and> (role p = Some ''admin'' \<longrightarrow> user_role target = ''member'')
        \<and> i \<in> set (dependents d) \<longrightarrow>
      delete_user e d p targetId
        = (d, reply 400 (JError ''Cannot delete user: dependent records exist'')))
   \<and> (Number e targetId \<noteq> Some (pr_user_id p) \<and> int4in e targetId = Some i
        \<and> filter (\<lambda>u. user_id u = i) (users d) = target # rest
        \<and> user_role target \<noteq> ''super_admin''
        \<and> (role p = Some ''admin'' \<longrightarrow> user_role target = ''member'')
        \<and> i \<notin> set (dependents d) \<longrightarrow>
      delete_user e d p targetId
        = (d\<lparr>users := filter (\<lambda>u. user_id u \<noteq> i) (users d)\<rparr>,
           reply 200 (JMessage ''User deleted successfully''))
      \<and> (\<forall>u \<in> set (users (fst (delete_user e d p targetId))). user_id u \<noteq> i))
   \<and> (extract_token req = Some t \<and> t \<noteq> [] \<and> t \<notin> set (revoked_tokens d)
        \<and> jwt_verify e t = Some p \<and> (role p = Some ''admin'' \<or> role p = Some ''super_admin'') \<longrightarrow>
      serve e now uuid d (DeleteUser targetId) req = answered (delete_user e d p targetId))
   \<and> (extract_token req = Some t \<and> t \<noteq> [] \<and> t \<notin> set (revoked_tokens d)
        \<and> jwt_verify e t = Some p
        \<and> role p = Some r \<and> r \<noteq> [] \<and> r \<noteq> ''admin'' \<and> r \<noteq> ''super_admin'' \<longrightarrow>
      (\<exists>resp. serve e now uuid d (DeleteUser targetId) req = Answered d resp \<and> status resp = 403))"
proof (intro conjI impI)
  show "delete_user e d p targetId
          = (d, reply 403 (JError ''You cannot delete your own account''))"
    if "Number e targetId = Some (pr_user_id p)"
    using that by (simp add: delete_user_def)
  show "delete_user e d p targetId = (d, reply 500 (JError ''Server error''))"
    if "Number e targetId \<noteq> Some (pr_user_id p) \<and> int4in e targetId = None"
    using that by (simp add: delete_user_def)
  show "delete_user e d p targetId = (d, reply 404 (JError ''User not found''))"
    if h: "Number e targetId \<noteq> Some (pr_user_id p) \<and> int4in e targetId = Some i
        \<and> (\<forall>u \<in> set (users d). user_id u \<noteq> i)"
  proof -
    have "filter (\<lambda>u. user_id u = i) (users d) = []"
      using h by (auto simp: filter_empty_conv)
    with h show ?thesis by (simp add: delete_user_def)
  qed
  show "fst (delete_user e d p targetId) = d"
    if "int4in e targetId = Some i
        \<and> filter (\<lambda>u. user_id u = i) (users d) = target # rest
        \<and> user_role target = ''super_admin''"
    using that by (simp add: delete_user_def)
  show "status (snd (delete_user e d p targetId)) = 403"
    if "int4in e targetId = Some i
        \<and> filter (\<lambda>u. user_id u = i) (users d) = target # rest
        \<and> user_role target = ''super_admin''"
    using that by (simp add: delete_user_def reply_def)
  show "fst (delete_user e d p targetId) = d"
    if "int4in e targetId = Some i
        \<and> filter (\<lambda>u. user_id u = i) (users d) = target # rest
        \<and> role p = Some ''admin'' \<and> user_role target \<noteq> ''member''"
    using that by (simp add: delete_user_def)
  show "status (snd (delete_user e d p targetId)) = 403"
    if "int4in e targetId = Some i
        \<and> filter (\<lambda>u. user_id u = i) (users d) = target # rest
        \<and> role p = Some ''admin'' \<and> user_role target \<noteq> ''member''"
    using that by (simp add: delete_user_def reply_def)
  show "delete_user e d p targetId
        = (d, reply 400 (JError ''Cannot delete user: dependent records exist''))"
    if "Number e targetId \<noteq> Some (pr_user_id p) \<and> int4in e targetId = Some i
        \<and> filter (\<lambda>u. user_id u = i) (users d) = target # rest
        \<and> user_role target \<noteq> ''super_admin''
        \<and> (role p = Some ''admin'' \<longrightarrow> user_role target = ''member'')
        \<and> i \<in> set (dependents d)"
    using that by (auto simp: delete_user_def)
  show "delete_user e d p targetId
        = (d\<lparr>users := filter (\<lambda>u. user_id u \<noteq> i) (users d)\<rparr>,
           reply 200 (JMessage ''User deleted successfully''))"
    if "Number e targetId \<noteq> Some (pr_user_id p) \<and> int4in e targetId = Some i
        \<and> filter (\<lambda>u. user_id u = i) (users d) = target # rest
        \<and> user_role target \<noteq> ''super_admin''
        \<and> (role p = Some ''admin'' \<longrightarrow> user_role target = ''member'')
        \<and> i \<notin> set (dependents d)"
    using that by (auto simp: delete_user_def)
  show "\<forall>u \<in> set (users (fst (delete_user e d p targetId))). user_id u \<noteq> i"
    if "Number e targetId \<noteq> Some (pr_user_id p) \<and> int4in e targetId = Some i
        \<and> filter (\<lambda>u. user_id u = i) (users d) = target # rest
        \<and> user_role target \<noteq> ''super_admin''
        \<and> (role p = Some ''admin'' \<longrightarrow> user_role target = ''member'')
        \<and> i \<notin> set (dependents d)"
    using that by (auto simp: delete_user_def)
  show "serve e now uuid d (DeleteUser targetId) req = answered (delete_user e d p targetId)"
    if "extract_token req = Some t \<and> t \<noteq> [] \<and> t \<notin> set (revoked_tokens d)
        \<and> jwt_verify e t = Some p \<and> (role p = Some ''admin'' \<or> role p = Some ''super_admin'')"
    using that by (simp add: serve_DeleteUser)
  show "\<exists>resp. serve e now uuid d (DeleteUser targetId) req = Answered d resp \<and> status resp = 403"
    if "extract_token req = Some t \<and> t \<noteq> [] \<and> t \<notin> set (revoked_tokens d)
        \<and> jwt_verify e t = Some p
        \<and> role p = Some r \<and> r \<noteq> [] \<and> r \<noteq> ''admin'' \<and> r \<noteq> ''super_admin''"
    using that by (simp add: serve_DeleteUser_other_roles)
qed

theorem delete_user_rules_witness:
  "delete_user sample_env sample_db (mk_principal 2 ''dana'' ''admin'') ''2''
     = (sample_db, reply 403 (JError ''You cannot delete your own account''))
   \<and> delete_user sample_env sample_db (mk_principal 2 ''dana'' ''admin'') ''abc''
     = (sample_db, reply 500 (JError ''Server error''))
   \<and> delete_user sample_env sample_db (mk_principal 2 ''dana'' ''admin'') ''99''
     = (sample_db, reply 404 (JError ''User not found''))
   \<and> status (snd (delete_user sample_env sample_db (mk_principal 2 ''dana'' ''admin'') ''1'')) = 403
   \<and> status (snd (delete_user sample_env sample_db (mk_principal 1 ''root'' ''super_admin'') ''1'')) = 403
   \<and> status (snd (delete_user sample_env sample_db (mk_principal 2 ''dana'' ''admin'') ''3'')) = 403
   \<and> delete_user sample_env sample_db (mk_principal 2 ''dana'' ''admin'') ''7''
     = (sample_db, reply 400 (JError ''Cannot delete user: dependent records exist''))
   \<and> delete_user sample_env sample_db (mk_principal 2 ''dana'' ''admin'') ''4''
     = (sample_db\<lparr>users := filter (\<lambda>u. user_id u \<noteq> 4) (users sample_db)\<rparr>,
        reply 200 (JMessage ''User deleted successfully''))
   \<and> serve sample_env 1000 ''u1'' sample_db (DeleteUser ''4'') (bearer ''jwt.2'')
     = answered (delete_user sample_env sample_db (mk_principal 2 ''dana'' ''admin'') ''4'')
   \<and> (\<exists>resp. serve sample_env 1000 ''u1'' sample_db (DeleteUser ''4'') (bearer ''jwt.3'')
                = Answered sample_db resp \<and> status resp = 403)"
proof -
  let ?dana = "mk_principal 2 ''dana'' ''admin''"
  let ?root = "mk_principal 1 ''root'' ''super_admin''"
  let ?sam = "mk_principal 3 ''sam'' ''staff''"
  note r = delete_user_rules[where e = sample_env and d = sample_db]
  have a: "delete_user sample_env sample_db ?dana ''2''
             = (sample_db, reply 403 (JError ''You cannot delete your own account''))"
    by (rule r[where p = ?dana and targetId = "''2''", THEN conjunct1, THEN mp])
       (simp add: sample_defs sample_readers)
  have b: "delete_user sample_env sample_db ?dana ''abc''
             = (sample_db, reply 500 (JError ''Server error''))"
    by (rule r[where p = ?dana and targetId = "''abc''", THEN conjunct2, THEN conjunct1, THEN mp])
       (simp add: sample_defs sample_readers)
  have c: "delete_user sample_env sample_db ?dana ''99''
             = (sample_db, reply 404 (JError ''User not found''))"
    by (rule r[where p = ?dana and targetId = "''99''" and i = 99,
               THEN conjunct2, THEN conjunct2, THEN conjunct1, THEN mp])
       (simp add: sample_defs sample_readers)
  have d: "status (snd (delete_user sample_env sample_db ?dana ''1'')) = 403"
    by (rule r[where p = ?dana and targetId = "''1''" and i = 1
                 and target = "mk_user 1 ''root'' ''super_admin'' ''APPROVED'' 10" and rest = "[]",
               THEN conjunct2, THEN conjunct2, THEN conjunct2, THEN conjunct1, THEN mp,
               THEN conjunct2])
       (simp add: sample_defs sample_readers)
  have d': "status (snd (delete_user sample_env sample_db ?root ''1'')) = 403"
    by (rule r[where p = ?root and targetId = "''1''" and i = 1
                 and target = "mk_user 1 ''root'' ''super_admin'' ''APPROVED'' 10" and rest = "[]",
               THEN conjunct2, THEN conjunct2, THEN conjunct2, THEN conjunct1, THEN mp,
               THEN conjunct2])
       (simp add: sample_defs sample_readers)
  have e: "status (snd (delete_user sample_env sample_db ?dana ''3'')) = 403"
    by (rule r[where p = ?dana and targetId = "''3''" and i = 3
                 and target = "mk_user 3 ''sam'' ''staff'' ''APPROVED'' 30" and rest = "[]",
               THEN conjunct2, THEN conjunct2, THEN conjunct2, THEN conjunct2, THEN conjunct1,
               THEN mp, THEN conjunct2])
       (simp add: sample_defs sample_readers)
  have f: "delete_user sample_env sample_db ?dana ''7''
             = (sample_db, reply 400 (JError ''Cannot delete user: dependent records exist''))"
    by (rule r[where p = ?dana and targetId = "''7''" and i = 7
                 and target = "mk_user 7 ''kim'' ''member'' ''APPROVED'' 70" and rest = "[]",
               THEN conjunct2, THEN conjunct2, THEN conjunct2, THEN conjunct2, THEN conjunct2,
               THEN conjunct1, THEN mp])
       (simp add: sample_defs sample_readers)
  have g: "delete_user sample_env sample_db ?dana ''4''
     = (sample_db\<lparr>users := filter (\<lambda>u. user_id u \<noteq> 4) (users sample_db)\<rparr>,
        reply 200 (JMessage ''User deleted successfully''))"
    by (rule r[where p = ?dana and targetId = "''4''" and i = 4
                 and target = "mk_user 4 ''mia'' ''member'' ''APPROVED'' 40" and rest = "[]",
               THEN conjunct2, THEN conjunct2, THEN conjunct2, THEN conjunct2, THEN conjunct2,
               THEN conjunct2, THEN conjunct1, THEN mp, THEN conjunct1])
       (simp add: sample_defs sample_readers)
  have h: "serve sample_env 1000 ''u1'' sample_db (DeleteUser ''4'') (bearer ''jwt.2'')
     = answered (delete_user sample_env sample_db ?dana ''4'')"
    by (rule r[where p = ?dana and targetId = "''4''" and req = "bearer ''jwt.2''"
                 and t = "''jwt.2''",
               THEN conjunct2, THEN conjunct2, THEN conjunct2, THEN conjunct2, THEN conjunct2,
               THEN conjunct2, THEN conjunct2, THEN conjunct1, THEN mp])
       (simp add: extract_token_def falsy_def sample_defs)
  have k: "\<exists>resp. serve sample_env 1000 ''u1'' sample_db (DeleteUser ''4'') (bearer ''jwt.3'')
                = Answered sample_db resp \<and> status resp = 403"
    by (rule r[where p = ?sam and targetId = "''4''" and req = "bearer ''jwt.3''"
                 and t = "''jwt.3''" and r = "''staff''",
               THEN conjunct2, THEN conjunct2, THEN conjunct2, THEN conjunct2, THEN conjunct2,
               THEN conjunct2, THEN conjunct2, THEN conjunct2, THEN mp])
       (simp add: extract_token_def falsy_def sample_defs)
  from a b c d d' e f g h k show ?thesis by blast
qed

text \<open>
  C8 as first stated (404 whenever no account has the target id) fails where the store
  cannot read the id: no account of the sample has the id 2147483648 and it is not the
  requester's, yet an admin's DELETE /2147483648 is answered 500, not 404.
\<close>

theorem delete_user_unreadable_id_counterexample:
  "map user_id (users sample_db) = [1, 2, 3, 4, 5, 6, 7]
   \<and> jwt_verify sample_env ''jwt.2'' = Some (mk_principal 2 ''dana'' ''admin'')
   \<and> Number sample_env ''2147483648'' = Some 2147483648
   \<and> serve sample_env 1000 ''u1'' sample_db (DeleteUser ''2147483648'') (bearer ''jwt.2'')
       = Answered sample_db (reply 500 (JError ''Server error''))
   \<and> status (reply 500 (JError ''Server error'')) \<noteq> 404"
  by (simp add: serve_def verifyToken_def extract_token_def falsy_def rbacAccess_def rules_def
        answered_def delete_user_def reply_def sample_defs sample_readers)

section \<open>Routes and authentication\<close>

lemma guarded_route_needs_token:
  assumes "VerifyToken \<in> set (guards r)" "falsy (extract_token req)"
  shows "serve e now uuid d r req = Answered d (reply 401 (JError ''Missing token''))"
proof -
  from assms(1) obtain gs where g: "guards r = VerifyToken # gs"
    by (cases r) (auto split: if_splits)
  from assms(2) have "verifyToken (jwt_verify e) d req = Inl (reply 401 (JError ''Missing token''))"
    by (auto simp: verifyToken_def falsy_def split: option.splits)
  with g show ?thesis by (simp add: serve_def)
qed

text \<open>
  C2: the routes declared with verifyToken answer 401 to a request without token (the
  lemma above), but the list routes of the record routers are declared without any
  middleware: a request with no token gets the rows of volunteers and of board_members,
  and PUT /projects/:id reaches its handler with no principal. Evaluated on the sample
  deployment.
\<close>

theorem list_routes_answer_without_token:
  "extract_token sample_request = None
   \<and> serve sample_env 1000 ''u1'' sample_db (ListAll Volunteers) sample_request
       = Answered sample_db
           (reply 200 (JRows [\<lparr>rid = ''V1'', owner = Some ''3'', columns = ''Ravi''\<rparr>]))
   \<and> serve sample_env 1000 ''u1'' sample_db (ListAll Board_members) sample_request
       = Answered sample_db
           (reply 200 (JRows [\<lparr>rid = ''B1'', owner = None, columns = ''Lena''\<rparr>]))
   \<and> serve sample_env 1000 ''u1'' sample_db (PutOne Projects ''P1'') sample_request = Passed None"
  by (simp add: serve_def extract_token_def falsy_def sample_defs)

section \<open>Ownership\<close>

lemma requireOwnerOrAdmin_privileged:
  assumes "role p = Some ''admin'' \<or> role p = Some ''staff'' \<or> role p = Some ''super_admin''"
  shows "requireOwnerOrAdmin d (Some p) baseUrl recordId = Inr ()"
  using assms by (auto simp: requireOwnerOrAdmin_def)

lemma requireOwnerOrAdmin_mounted:
  assumes "role p \<noteq> Some ''admin''" "role p \<noteq> Some ''staff''" "role p \<noteq> Some ''super_admin''"
    and "baseUrl \<in> set mounts"
  shows "requireOwnerOrAdmin d (Some p) baseUrl recordId
           = Inl (reply 400 (JError ''requireOwnerOrAdmin: unknown entity''))"
  using assms
  by (auto simp: requireOwnerOrAdmin_def mounts_def owner_map_def object_prototype_keys_def)

lemma requireOwnerOrAdmin_configured:
  assumes "role p \<noteq> Some ''admin''" "role p \<noteq> Some ''staff''" "role p \<noteq> Some ''super_admin''"
    and "map_of owner_map (last (split_on CHR ''/'' baseUrl)) = Some (table, col)"
    and "recordId \<noteq> []"
  shows "requireOwnerOrAdmin d (Some p) baseUrl recordId =
           (case filter (\<lambda>r. rid r = recordId) (records d table) of
              [] \<Rightarrow> Inl (reply 404 (JError ''Record not found''))
            | row # _ \<Rightarrow>
                if String_opt (owner row) = pr_email p
                   \<or> String_opt (owner row) = String_int (pr_user_id p)
                then Inr () else Inl (reply 403 (JError ''Forbidden: not owner'')))"
  using assms by (simp add: requireOwnerOrAdmin_def)

text \<open>
  C4: requireOwnerOrAdmin looks the last segment of the mount path up in a table whose
  keys are \<open>students_frf_owner\<close>, ..., so under the mount path /api/v1/students a member
  whose email is the owner column of record S1 is answered 400 (unknown entity) instead
  of being let through. Evaluated on the sample deployment.
\<close>

theorem owner_denied_under_mounted_router:
  "requireOwnerOrAdmin sample_db (Some (mk_principal 4 ''mia'' ''member'')) ''/api/v1/students'' ''S1''
     = Inl (reply 400 (JError ''requireOwnerOrAdmin: unknown entity''))
   \<and> map owner (filter (\<lambda>r. rid r = ''S1'') (records sample_db Students))
       = [Some (pr_email (mk_principal 4 ''mia'' ''member''))]"
  by (simp add: requireOwnerOrAdmin_def owner_map_def object_prototype_keys_def sample_defs)

end
